theory Spec2Isabelle
  imports Main
begin

section \<open>JSON values as JavaScript sees them\<close>

text \<open>
  Both programs of the repository (the gateway Worker and the Express render server in the
  container) exchange JSON. A parsed JSON value is modelled by the datatype below. Numbers
  are restricted to integers (JavaScript numbers are doubles; none of the properties below
  depends on fractions), and \<open>JNum n\<close> is the double that JavaScript holds after parsing. An object is an association list read by first match; a parsed
  object has no duplicate keys. \<open>json option\<close> is a JavaScript value that may be
  \<open>undefined\<close> (\<open>None\<close>).
\<close>

datatype json =
    JNull
  | JBool bool
  | JNum int
  | JStr string
  | JArr "json list"
  | JObj "(string \<times> json) list"

text \<open>Property read \<open>v.k\<close> on a non-null value: only objects carry the properties read here.\<close>

fun get_prop :: "json \<Rightarrow> string \<Rightarrow> json option" where
  "get_prop (JObj kvs) k = map_of kvs k"
| "get_prop _ k = None"

text \<open>Optional chaining \<open>v?.k\<close>: \<open>undefined\<close> when \<open>v\<close> is \<open>undefined\<close> or \<open>null\<close>.\<close>

fun opt_prop :: "json option \<Rightarrow> string \<Rightarrow> json option" where
  "opt_prop None k = None"
| "opt_prop (Some JNull) k = None"
| "opt_prop (Some v) k = get_prop v k"

text \<open>JavaScript truthiness, as tested by \<open>!x\<close> and \<open>a && b\<close>.\<close>

fun truthy :: "json option \<Rightarrow> bool" where
  "truthy None = False"
| "truthy (Some JNull) = False"
| "truthy (Some (JBool b)) = b"
| "truthy (Some (JNum n)) = (n \<noteq> 0)"
| "truthy (Some (JStr s)) = (s \<noteq> [])"
| "truthy (Some (JArr xs)) = True"
| "truthy (Some (JObj kvs)) = True"

text \<open>Decimal digits of a natural number (array indices as property names, numbers in templates).\<close>

function dec_of_nat :: "nat \<Rightarrow> string" where
  "dec_of_nat n =
     (if n < 10 then [char_of (48 + n)]
      else dec_of_nat (n div 10) @ [char_of (48 + n mod 10)])"
  by pat_completeness auto
termination
  by (relation "measure id") auto

declare dec_of_nat.simps [simp del]

text \<open>
  Object spread \<open>{...v}\<close>: the own enumerable properties of \<open>v\<close>. An object gives its
  properties, an array and a string their indexed elements, every other value nothing.
\<close>

fun spread :: "json \<Rightarrow> (string \<times> json) list" where
  "spread (JObj kvs) = kvs"
| "spread (JArr xs) = zip (map dec_of_nat [0..<length xs]) xs"
| "spread (JStr s) = zip (map dec_of_nat [0..<length s]) (map (\<lambda>c. JStr [c]) s)"
| "spread _ = []"

text \<open>A later property of an object literal overwrites an earlier one of the same name.\<close>

fun set_prop :: "string \<Rightarrow> json \<Rightarrow> (string \<times> json) list \<Rightarrow> (string \<times> json) list" where
  "set_prop k v [] = [(k, v)]"
| "set_prop k v (p # ps) = (if fst p = k then (k, v) # ps else p # set_prop k v ps)"

text \<open>
  An object literal on its way through \<open>JSON.stringify\<close> (also inside \<open>Response.json\<close>
  and \<open>res.json\<close>): a property whose value is \<open>undefined\<close> is left out.
\<close>

definition json_object :: "(string \<times> json option) list \<Rightarrow> json" where
  "json_object fs = JObj (List.map_filter (\<lambda>(k, v). map_option (Pair k) v) fs)"

text \<open>\<open>haystack.includes(needle)\<close> on strings.\<close>

fun starts_with :: "string \<Rightarrow> string \<Rightarrow> bool" where
  "starts_with s [] = True"
| "starts_with [] (d # ds) = False"
| "starts_with (c # cs) (d # ds) = (c = d \<and> starts_with cs ds)"

fun str_includes :: "string \<Rightarrow> string \<Rightarrow> bool" where
  "str_includes [] needle = (needle = [])"
| "str_includes (c # cs) needle = (starts_with (c # cs) needle \<or> str_includes cs needle)"

section \<open>HTTP messages and the platform\<close>

text \<open>
  The JSON codec itself is the platform's and is not modelled: a body is classified by what
  \<open>JSON.parse\<close> makes of it. \<open>JsonText j\<close> is a body whose text parses to \<open>j\<close> (what
  \<open>JSON.stringify\<close>, \<open>Response.json\<close> and Express's \<open>res.json\<close> produce from \<open>j\<close>);
  \<open>Raw s\<close> is any other body, the bytes \<open>s\<close>, which \<open>JSON.parse\<close> rejects. A message with no
  body (\<open>response.body === null\<close>) has \<open>None\<close>. Of the headers, a message carries the two
  that the programs set or read by name: \<open>content_type\<close> is what
  \<open>headers.get("Content-Type")\<close> gives, \<open>content_length\<close> the declared \<open>Content-Length\<close>.
\<close>

datatype payload = JsonText json | Raw string

record request =
  pathname :: string
  http_method :: string
  req_body :: "payload option"

record response =
  status :: nat
  content_type :: "string option"
  content_length :: "nat option"
  resp_body :: "payload option"

text \<open>The object that \<open>R2Bucket.put\<close> resolves to.\<close>

record r2_object =
  obj_key :: string
  obj_size :: nat

text \<open>
  What is left to the JavaScript engine is taken as a parameter: the texts of the errors
  that the engine itself throws (the message, and the stack, of the \<open>TypeError\<close> for a value
  that has no string conversion among them), which only ever reach the fields of a 500
  payload, and the text that \<open>Number.prototype.toString\<close> gives for an integer beyond the
  safe range, where the digits printed are the shortest that identify the double and, from
  \<open>1e21\<close> on, are in exponent form. The gateway and the worker each run on an engine of
  their own.
\<close>

record runtime =
  syntax_error_message :: "string \<Rightarrow> string"
  null_read_message :: "string \<Rightarrow> string"
  response_status_message :: "nat \<Rightarrow> string"
  to_primitive_message :: string
  to_primitive_stack :: string
  number_text :: "int \<Rightarrow> string"

fun join_with :: "string \<Rightarrow> string list \<Rightarrow> string" where
  "join_with sep [] = []"
| "join_with sep [x] = x"
| "join_with sep (x # y # ys) = x @ sep @ join_with sep (y # ys)"

text \<open>
  String conversion inside a template literal \<open>`${v}`\<close>; \<open>None\<close> is a thrown \<open>TypeError\<close>.
  A safe integer prints its decimal digits. An array joins the conversions of its elements
  with commas, \<open>null\<close> elements giving the empty string. An object parsed from JSON has no
  callable property: if it has a property \<open>toString\<close> of its own, that one hides
  \<open>Object.prototype.toString\<close>, \<open>valueOf\<close> gives no primitive, and the conversion throws;
  otherwise it is \<open>[object Object]\<close>.
\<close>

fun js_string :: "runtime \<Rightarrow> json option \<Rightarrow> string option" where
  "js_string rt None = Some ''undefined''"
| "js_string rt (Some JNull) = Some ''null''"
| "js_string rt (Some (JBool b)) = Some (if b then ''true'' else ''false'')"
| "js_string rt (Some (JNum n)) =
     Some (if \<bar>n\<bar> \<le> 9007199254740991
           then (if n < 0 then ''-'' @ dec_of_nat (nat (- n)) else dec_of_nat (nat n))
           else number_text rt n)"
| "js_string rt (Some (JStr s)) = Some s"
| "js_string rt (Some (JArr xs)) =
     map_option (join_with '','')
       (those (map (\<lambda>x. if x = JNull then Some [] else js_string rt (Some x)) xs))"
| "js_string rt (Some (JObj kvs)) =
     (if map_of kvs ''toString'' = None then Some ''[object Object]'' else None)"

text \<open>
  The gateway's \<open>Env\<close>. The two bindings are modelled by the outcome of the one call the
  gateway makes on each: \<open>REMOTION_CONTAINER\<close> is
  \<open>getContainer(env.REMOTION_CONTAINER, "renderer").fetch\<close> on the job it is sent, and
  \<open>R2_BUCKET\<close> is \<open>env.R2_BUCKET.put\<close> on key, body and content type; \<open>Inl m\<close> is a
  rejected promise whose error has the message \<open>m\<close>. The interface types the four
  variables as strings, but an unset variable or secret is \<open>undefined\<close> at run time (the
  repository's documentation describes running without the two secrets), hence \<open>option\<close>.
\<close>

record env =
  REMOTION_CONTAINER :: "json \<Rightarrow> string + response"
  R2_BUCKET :: "string \<Rightarrow> payload \<Rightarrow> string \<Rightarrow> string + r2_object"
  R2_BUCKET_NAME :: "string option"
  CLOUDFLARE_ACCOUNT_ID :: "string option"
  R2_ACCESS_KEY_ID :: "string option"
  R2_SECRET_ACCESS_KEY :: "string option"

text \<open>The external calls a request makes, in order: the forward to the container and the put.\<close>

datatype io = Forward json | Put string payload string

text \<open>
  \<open>await message.json()\<close>: the parsed body, or a \<open>SyntaxError\<close> for a body that is not JSON
  text; a message without a body reads as the empty text.
\<close>

fun read_json :: "runtime \<Rightarrow> payload option \<Rightarrow> string + json" where
  "read_json rt None = Inl (syntax_error_message rt [])"
| "read_json rt (Some (Raw s)) = Inl (syntax_error_message rt s)"
| "read_json rt (Some (JsonText j)) = Inr j"

text \<open>
  \<open>await response.text()\<close> decodes the bytes of the body as UTF-8 and
  \<open>new Response(text, ...)\<close> encodes the text again. The decoder is the one of the Encoding
  standard: it drops a leading byte-order mark, and it replaces every ill-formed sequence by
  U+FFFD, taking up again at the byte that broke the sequence. Its state is the number of
  bytes the open sequence still needs, the bounds for the next byte, and the bytes seen of
  the sequence. A well-formed sequence is encoded back to its own bytes, U+FFFD to
  \<open>EF BF BD\<close>.
\<close>

definition replacement :: string where
  "replacement = [CHR 0xEF, CHR 0xBF, CHR 0xBD]"

type_synonym utf8_state = "nat \<times> nat \<times> nat \<times> string"

definition utf8_initial :: utf8_state where
  "utf8_initial = (0, 128, 191, [])"

definition utf8_lead :: "char \<Rightarrow> string \<times> utf8_state" where
  "utf8_lead c =
     (let b = (of_char c :: nat) in
      if b \<le> 127 then ([c], utf8_initial)
      else if 194 \<le> b \<and> b \<le> 223 then ([], (1, 128, 191, [c]))
      else if 224 \<le> b \<and> b \<le> 239 then
        ([], (2, if b = 224 then 160 else 128, if b = 237 then 159 else 191, [c]))
      else if 240 \<le> b \<and> b \<le> 244 then
        ([], (3, if b = 240 then 144 else 128, if b = 244 then 143 else 191, [c]))
      else (replacement, utf8_initial))"

fun utf8_byte :: "utf8_state \<Rightarrow> char \<Rightarrow> string \<times> utf8_state" where
  "utf8_byte (needed, lower, upper, seen) c =
     (if needed = 0 then utf8_lead c
      else if (of_char c :: nat) < lower \<or> upper < (of_char c :: nat) then
        (replacement @ fst (utf8_lead c), snd (utf8_lead c))
      else if needed = 1 then (seen @ [c], utf8_initial)
      else ([], (needed - 1, 128, 191, seen @ [c])))"

fun utf8_relay :: "utf8_state \<Rightarrow> string \<Rightarrow> string" where
  "utf8_relay st [] = (if fst st = 0 then [] else replacement)"
| "utf8_relay st (c # cs) = fst (utf8_byte st c) @ utf8_relay (snd (utf8_byte st c)) cs"

fun strip_bom :: "string \<Rightarrow> string" where
  "strip_bom (a # b # c # rest) =
     (if a = CHR 0xEF \<and> b = CHR 0xBB \<and> c = CHR 0xBF then rest else a # b # c # rest)"
| "strip_bom s = s"

definition utf8_text :: "string \<Rightarrow> string" where
  "utf8_text s = utf8_relay utf8_initial (strip_bom s)"

text \<open>
  The body that the relayed response carries. A response without a body reads as the empty
  text. A JSON body comes out as a JSON body of the same value: decoding it is what
  \<open>response.json()\<close> does before it parses.
\<close>

fun read_text :: "payload option \<Rightarrow> payload" where
  "read_text None = Raw []"
| "read_text (Some (Raw s)) = Raw (utf8_text s)"
| "read_text (Some (JsonText j)) = JsonText j"

text \<open>
  The well-formed UTF-8 byte sequences, as the Unicode standard tabulates them: one byte
  up to \<open>7F\<close>; a lead \<open>C2..DF\<close>, \<open>E0..EF\<close> or \<open>F0..F4\<close> with one, two or three trailing
  bytes \<open>80..BF\<close>, the first of them narrowed after \<open>E0\<close>, \<open>ED\<close>, \<open>F0\<close> and \<open>F4\<close>.
\<close>

definition in_range :: "nat \<Rightarrow> nat \<Rightarrow> char \<Rightarrow> bool" where
  "in_range lo hi c = (lo \<le> (of_char c :: nat) \<and> (of_char c :: nat) \<le> hi)"

fun well_formed_utf8 :: "string \<Rightarrow> bool" where
  "well_formed_utf8 [] = True"
| "well_formed_utf8 (c # cs) =
     (let b = (of_char c :: nat) in
      if b \<le> 127 then well_formed_utf8 cs
      else if 194 \<le> b \<and> b \<le> 223 then
        (case cs of
           c1 # r \<Rightarrow> in_range 128 191 c1 \<and> well_formed_utf8 r
         | _ \<Rightarrow> False)
      else if 224 \<le> b \<and> b \<le> 239 then
        (case cs of
           c1 # c2 # r \<Rightarrow>
             in_range (if b = 224 then 160 else 128) (if b = 237 then 159 else 191) c1
             \<and> in_range 128 191 c2 \<and> well_formed_utf8 r
         | _ \<Rightarrow> False)
      else if 240 \<le> b \<and> b \<le> 244 then
        (case cs of
           c1 # c2 # c3 # r \<Rightarrow>
             in_range (if b = 240 then 144 else 128) (if b = 244 then 143 else 191) c1
             \<and> in_range 128 191 c2 \<and> in_range 128 191 c3 \<and> well_formed_utf8 r
         | _ \<Rightarrow> False)
      else False)"

declare well_formed_utf8.simps(2) [simp del]

text \<open>\<open>value || ""\<close> on a header value that may be missing.\<close>

fun or_empty :: "string option \<Rightarrow> string" where
  "or_empty None = []"
| "or_empty (Some c) = c"

text \<open>\<open>Response.json(data, {status})\<close>.\<close>

definition response_json :: "json \<Rightarrow> nat \<Rightarrow> response" where
  "response_json data st =
     \<lparr>status = st, content_type = Some ''application/json'', content_length = None,
      resp_body = Some (JsonText data)\<rparr>"

text \<open>
  \<open>new Response(body, {status, headers})\<close> with a body that is a string. The Fetch
  standard's constructor throws a \<open>RangeError\<close> for a status outside 200..599 and a
  \<open>TypeError\<close> for a body given together with a null-body status.
\<close>

definition null_body_status :: "nat \<Rightarrow> bool" where
  "null_body_status st = (st = 101 \<or> st = 103 \<or> st = 204 \<or> st = 205 \<or> st = 304)"

definition new_response :: "runtime \<Rightarrow> payload \<Rightarrow> nat \<Rightarrow> string \<Rightarrow> string + response" where
  "new_response rt b st ct =
     (if st < 200 \<or> 599 < st \<or> null_body_status st then Inl (response_status_message rt st)
      else Inr \<lparr>status = st, content_type = Some ct, content_length = None, resp_body = Some b\<rparr>)"

section \<open>The gateway: the Worker's \<open>fetch\<close> handler\<close>

text \<open>The \<open>r2Config\<close> object literal of the forwarded job, as it is serialised.\<close>

definition r2Config :: "env \<Rightarrow> json" where
  "r2Config e = json_object
     [(''accountId'', map_option JStr (CLOUDFLARE_ACCOUNT_ID e)),
      (''accessKeyId'', map_option JStr (R2_ACCESS_KEY_ID e)),
      (''secretAccessKey'', map_option JStr (R2_SECRET_ACCESS_KEY e)),
      (''bucketName'', map_option JStr (R2_BUCKET_NAME e))]"

text \<open>\<open>{ ...originalBody, renderId, r2Config: {...} }\<close>\<close>

definition enhancedBody :: "env \<Rightarrow> json \<Rightarrow> string \<Rightarrow> json" where
  "enhancedBody e originalBody renderId =
     JObj (set_prop ''r2Config'' (r2Config e)
            (set_prop ''renderId'' (JStr renderId) (spread originalBody)))"

text \<open>
  The branch for status 200, after the forward. The result is the calls made in it and
  either the response returned or the message of the error thrown. On the manifest path
  the one thing that can throw after the manifest is read is the template literal of
  \<open>url\<close>, the last property of the result.
\<close>

definition on_success :: "runtime \<Rightarrow> env \<Rightarrow> string \<Rightarrow> response \<Rightarrow> io list \<times> (string + response)" where
  "on_success rt e renderId resp =
     (let contentType = or_empty (content_type resp) in
      if str_includes contentType ''application/json'' then
        (case read_json rt (resp_body resp) of
           Inl m \<Rightarrow> ([], Inl m)
         | Inr JNull \<Rightarrow> ([], Inl (null_read_message rt ''key''))
         | Inr result \<Rightarrow>
             (case js_string rt (get_prop result ''key'') of
                None \<Rightarrow> ([], Inl (to_primitive_message rt))
              | Some keyText \<Rightarrow>
                  ([], Inr (response_json (json_object
                     [(''renderId'', Some (JStr renderId)),
                      (''bucketName'', map_option JStr (R2_BUCKET_NAME e)),
                      (''key'', get_prop result ''key''),
                      (''size'', get_prop result ''size''),
                      (''url'', Some (JStr (''https://renders.tremendous.dev/'' @ keyText)))])
                     200))))
      else
        (let key = renderId @ ''.mp4'' in
         case resp_body resp of
           None \<Rightarrow>
             ([], Inr (response_json (JObj [(''error'', JStr ''Empty response from container'')]) 500))
         | Some body \<Rightarrow>
             (case R2_BUCKET e key body ''video/mp4'' of
                Inl m \<Rightarrow> ([Put key body ''video/mp4''], Inl m)
              | Inr r2Object \<Rightarrow>
                  ([Put key body ''video/mp4''],
                   Inr (response_json (json_object
                     [(''renderId'', Some (JStr renderId)),
                      (''bucketName'', map_option JStr (R2_BUCKET_NAME e)),
                      (''key'', Some (JStr key)),
                      (''size'', Some (JNum (int (obj_size r2Object)))),
                      (''url'', Some (JStr (''https://renders.tremendous.dev/'' @ key)))]) 200)))))"

text \<open>The body of the \<open>try\<close> block.\<close>

definition render_attempt :: "runtime \<Rightarrow> env \<Rightarrow> request \<Rightarrow> string \<Rightarrow> io list \<times> (string + response)" where
  "render_attempt rt e req renderId =
     (case read_json rt (req_body req) of
        Inl m \<Rightarrow> ([], Inl m)
      | Inr originalBody \<Rightarrow>
          (let job = enhancedBody e originalBody renderId in
           case REMOTION_CONTAINER e job of
             Inl m \<Rightarrow> ([Forward job], Inl m)
           | Inr resp \<Rightarrow>
               if status resp = 200 then
                 (let (calls, outcome) = on_success rt e renderId resp
                  in (Forward job # calls, outcome))
               else
                 ([Forward job],
                  new_response rt (read_text (resp_body resp)) (status resp) ''application/json'')))"

text \<open>
  The handler. \<open>renderId\<close> is the value of \<open>crypto.randomUUID()\<close> for this request. The
  result is the response to the caller and the external calls made on the way.
\<close>

definition fetch :: "runtime \<Rightarrow> env \<Rightarrow> request \<Rightarrow> string \<Rightarrow> response \<times> io list" where
  "fetch rt e req renderId =
     (if pathname req = ''/render'' then
        (case render_attempt rt e req renderId of
           (calls, Inr resp) \<Rightarrow> (resp, calls)
         | (calls, Inl message) \<Rightarrow>
             (response_json (JObj
                [(''error'', JStr ''Render failed''),
                 (''message'', JStr message),
                 (''renderId'', JStr renderId)]) 500, calls))
      else
        (\<lparr>status = 200, content_type = Some ''text/plain'', content_length = None,
          resp_body = Some (Raw ''Remotion Worker - use POST /render to render videos'')\<rparr>, []))"

section \<open>The render worker: the container's Express handler\<close>

text \<open>
  The server in the container (\<open>src/server.ts\<close>, in its current version: the one with
  \<open>getS3Client\<close>, which reads the \<open>renderId\<close> and \<open>r2Config\<close> that the gateway adds). Its
  external calls are taken by their outcome: \<open>select_composition\<close> is \<open>selectComposition\<close>
  on the composition id and the input props; \<open>render_media\<close> stands for \<open>renderMedia\<close>
  followed by \<open>fs.readFile\<close> of the output, on the composition and the input props, and
  gives the bytes of the encoded file; \<open>s3_send\<close> is
  \<open>s3Client.send(new PutObjectCommand(...))\<close> on the client, bucket, key, body and content
  type. \<open>Inl\<close> carries the stack text of the error thrown. \<open>unanswered\<close> is what the
  gateway's forward comes to when the handler's promise rejects before it has sent a
  response, which is Express's and the process's business. The temporary file that the
  handler removes in its \<open>finally\<close> block is not modelled.
\<close>

record s3_client =
  endpoint :: string
  accessKeyId :: json
  secretAccessKey :: json

record 'c worker_platform =
  select_composition :: "json option \<Rightarrow> json option \<Rightarrow> string + 'c"
  render_media :: "'c \<Rightarrow> json option \<Rightarrow> string + string"
  s3_send :: "s3_client \<Rightarrow> json option \<Rightarrow> string \<Rightarrow> string \<Rightarrow> string \<Rightarrow> string + unit"
  unanswered :: "string + response"

datatype 'c worker_io =
    SelectComposition "json option" "json option"
  | RenderMedia 'c "json option"
  | S3Send s3_client "json option" string string string

text \<open>
  \<open>getS3Client\<close> returns \<open>null\<close>, or a client, or throws: the endpoint is a template
  literal on \<open>config.accountId\<close>.
\<close>

datatype client_outcome = ClientThrows | NoClient | Client s3_client

definition getS3Client :: "runtime \<Rightarrow> json option \<Rightarrow> client_outcome" where
  "getS3Client rt config =
     (if \<not> truthy (opt_prop config ''accountId'') \<or> \<not> truthy (opt_prop config ''accessKeyId'')
         \<or> \<not> truthy (opt_prop config ''secretAccessKey'')
      then NoClient
      else
        (case js_string rt (opt_prop config ''accountId'') of
           None \<Rightarrow> ClientThrows
         | Some account \<Rightarrow>
             Client \<lparr>endpoint = ''https://'' @ account @ ''.r2.cloudflarestorage.com'',
                     accessKeyId = the (opt_prop config ''accessKeyId''),
                     secretAccessKey = the (opt_prop config ''secretAccessKey'')\<rparr>))"

text \<open>\<open>res.status(st).json(data)\<close>: Express declares the charset with the media type.\<close>

definition res_json :: "nat \<Rightarrow> json \<Rightarrow> response" where
  "res_json st data =
     \<lparr>status = st, content_type = Some ''application/json; charset=utf-8'',
      content_length = None, resp_body = Some (JsonText data)\<rparr>"

text \<open>What the handler has done when its promise settles: sent a response, or rejected.\<close>

datatype handler_outcome = Sent response | Rejected

text \<open>
  The \<open>catch\<close> block. It logs with a template literal on \<open>renderId\<close> before it sends the
  500, so for a \<open>renderId\<close> without a string conversion it throws in its turn and nothing
  is sent.
\<close>

definition caught :: "runtime \<Rightarrow> json option \<Rightarrow> string \<Rightarrow> handler_outcome" where
  "caught rt renderId stack =
     (case js_string rt renderId of
        None \<Rightarrow> Rejected
      | Some tag \<Rightarrow>
          Sent (res_json 500 (JObj [(''message'', JStr ''Error rendering video.''),
                                    (''error'', JStr stack)])))"

text \<open>
  The handler of \<open>POST /render\<close> on the parsed request body: its outcome and the external
  calls made. The first log line with \<open>renderId\<close> in a template literal stands between
  \<open>selectComposition\<close> and \<open>renderMedia\<close>; the later ones convert the same value and cannot
  throw once that one has not.
\<close>

definition render_handler ::
    "runtime \<Rightarrow> 'c worker_platform \<Rightarrow> json \<Rightarrow> handler_outcome \<times> 'c worker_io list" where
  "render_handler rt wp body =
     (let compositionId = get_prop body ''compositionId'';
          inputProps = get_prop body ''inputProps'';
          renderId = get_prop body ''renderId'';
          r2Config = get_prop body ''r2Config''
      in
      if \<not> truthy compositionId then
        (Sent (res_json 400 (JObj [(''message'', JStr ''`compositionId` is required.'')])), [])
      else
        (case select_composition wp compositionId inputProps of
           Inl stack \<Rightarrow>
             (caught rt renderId stack, [SelectComposition compositionId inputProps])
         | Inr composition \<Rightarrow>
             (case js_string rt renderId of
                None \<Rightarrow>
                  (caught rt renderId (to_primitive_stack rt),
                   [SelectComposition compositionId inputProps])
              | Some tag \<Rightarrow>
                  (case render_media wp composition inputProps of
                     Inl stack \<Rightarrow>
                       (caught rt renderId stack,
                        [SelectComposition compositionId inputProps,
                         RenderMedia composition inputProps])
                   | Inr fileBuffer \<Rightarrow>
                       (let fileSize = length fileBuffer;
                            rendered = [SelectComposition compositionId inputProps,
                                        RenderMedia composition inputProps]
                        in
                        case getS3Client rt r2Config of
                          ClientThrows \<Rightarrow> (caught rt renderId (to_primitive_stack rt), rendered)
                        | NoClient \<Rightarrow>
                            (Sent \<lparr>status = 200, content_type = Some ''video/mp4'',
                                   content_length = Some fileSize,
                                   resp_body = Some (Raw fileBuffer)\<rparr>, rendered)
                        | Client s3Client \<Rightarrow>
                            if truthy renderId \<and> truthy r2Config then
                              (let key = tag @ ''.mp4'';
                                   bucket = opt_prop r2Config ''bucketName''
                               in
                               case s3_send wp s3Client bucket key fileBuffer ''video/mp4'' of
                                 Inl stack \<Rightarrow>
                                   (caught rt renderId stack,
                                    rendered @ [S3Send s3Client bucket key fileBuffer ''video/mp4''])
                               | Inr u \<Rightarrow>
                                   (Sent (res_json 200 (json_object
                                      [(''success'', Some (JBool True)),
                                       (''renderId'', renderId),
                                       (''key'', Some (JStr key)),
                                       (''size'', Some (JNum (int fileSize))),
                                       (''uploadedToR2'', Some (JBool True))])),
                                    rendered @ [S3Send s3Client bucket key fileBuffer ''video/mp4'']))
                            else
                              (Sent \<lparr>status = 200, content_type = Some ''video/mp4'',
                                     content_length = Some fileSize,
                                     resp_body = Some (Raw fileBuffer)\<rparr>, rendered))))))"

text \<open>
  A container that is awake and runs the handler: the forward resolves to what the handler
  sends for the job (the job's JSON text is within the body parser's limit and reaches the
  handler as the object it was serialised from).
\<close>

definition container_running ::
    "runtime \<Rightarrow> 'c worker_platform \<Rightarrow> json \<Rightarrow> string + response" where
  "container_running rt wp job =
     (case fst (render_handler rt wp job) of
        Sent r \<Rightarrow> Inr r
      | Rejected \<Rightarrow> unanswered wp)"

section \<open>Reading the outcome of a request\<close>


text \<open>Whether the worker took the self-upload path: it sent a \<open>PutObjectCommand\<close>.\<close>

fun is_S3Send :: "'c worker_io \<Rightarrow> bool" where
  "is_S3Send (S3Send c b k body ct) = True"
| "is_S3Send (SelectComposition c p) = False"
| "is_S3Send (RenderMedia c p) = False"

definition self_upload :: "'c worker_io list \<Rightarrow> bool" where
  "self_upload calls = list_ex is_S3Send calls"

section \<open>A sample deployment\<close>

text \<open>
  Concrete parameters on which the theorems below are run: engines with fixed texts, a
  renderer that produces ten bytes, a bucket that reports the length of the raw body it is
  given, and the configuration the repository documents for a first deploy (account id and
  bucket name set, the two secrets not yet set).
\<close>

definition sample_runtime :: runtime where
  "sample_runtime =
     \<lparr>syntax_error_message = (\<lambda>s. ''Unexpected end of JSON input''),
      null_read_message = (\<lambda>k. ''Cannot read properties of null''),
      response_status_message = (\<lambda>st. ''Invalid response status''),
      to_primitive_message = ''Cannot convert object to primitive value'',
      to_primitive_stack = ''TypeError: Cannot convert object to primitive value'',
      number_text = (\<lambda>n. ''1e+21'')\<rparr>"

definition sample_worker :: "string worker_platform" where
  "sample_worker =
     \<lparr>select_composition = (\<lambda>c p. Inr ''composition''),
      render_media = (\<lambda>c p. Inr ''0123456789''),
      s3_send = (\<lambda>c b k body ct. Inr ()),
      unanswered = Inl ''The container did not answer''\<rparr>"

definition crashing_worker :: "string worker_platform" where
  "crashing_worker =
     \<lparr>select_composition = (\<lambda>c p. Inr ''composition''),
      render_media = (\<lambda>c p. Inl ''Error: renderer crashed''),
      s3_send = (\<lambda>c b k body ct. Inr ()),
      unanswered = Inl ''The container did not answer''\<rparr>"

definition sample_bucket :: "string \<Rightarrow> payload \<Rightarrow> string \<Rightarrow> string + r2_object" where
  "sample_bucket k b ct =
     (case b of
        Raw s \<Rightarrow> Inr \<lparr>obj_key = k, obj_size = length s\<rparr>
      | JsonText j \<Rightarrow> Inl ''unsupported body'')"

definition failing_bucket :: "string \<Rightarrow> payload \<Rightarrow> string \<Rightarrow> string + r2_object" where
  "failing_bucket k b ct = Inl ''put failed''"

definition sample_env :: env where
  "sample_env =
     \<lparr>REMOTION_CONTAINER = container_running sample_runtime sample_worker,
      R2_BUCKET = sample_bucket,
      R2_BUCKET_NAME = Some ''remotion-renders'',
      CLOUDFLARE_ACCOUNT_ID = Some ''acct'',
      R2_ACCESS_KEY_ID = None,
      R2_SECRET_ACCESS_KEY = None\<rparr>"

definition hello_request :: request where
  "hello_request =
     \<lparr>pathname = ''/render'', http_method = ''POST'',
      req_body = Some (JsonText (JObj [(''compositionId'', JStr ''HelloWorld'')]))\<rparr>"

definition empty_request :: request where
  "empty_request =
     \<lparr>pathname = ''/render'', http_method = ''POST'', req_body = Some (JsonText (JObj []))\<rparr>"

text \<open>A worker double that answers every job with one fixed response.\<close>

definition worker_double :: "response \<Rightarrow> json \<Rightarrow> string + response" where
  "worker_double r job = Inr r"

text \<open>A container that cannot be started: every forward is rejected.\<close>

definition unreachable_container :: "json \<Rightarrow> string + response" where
  "unreachable_container job = Inl ''Container failed to start''"

section \<open>Auxiliary facts\<close>

lemma map_of_set_prop:
  "map_of (set_prop k v kvs) k' = (if k' = k then Some v else map_of kvs k')"
  by (induction kvs) auto

lemma get_prop_enhancedBody:
  "get_prop (enhancedBody e ob rid) k =
     (if k = ''r2Config'' then Some (r2Config e)
      else if k = ''renderId'' then Some (JStr rid)
      else map_of (spread ob) k)"
  by (simp add: enhancedBody_def map_of_set_prop)


text \<open>The handler returns what the \<open>try\<close> block returns, and turns what it throws into a 500.\<close>

lemma fetch_render:
  "pathname req = ''/render'' \<Longrightarrow> render_attempt rt e req rid = (calls, Inr resp)
     \<Longrightarrow> fetch rt e req rid = (resp, calls)"
  by (simp add: fetch_def)


lemma render_attempt_answered:
  "read_json rt (req_body req) = Inr ob \<Longrightarrow>
   REMOTION_CONTAINER e (enhancedBody e ob rid) = Inr resp \<Longrightarrow>
   render_attempt rt e req rid =
     (if status resp = 200 then
        (Forward (enhancedBody e ob rid) # fst (on_success rt e rid resp),
         snd (on_success rt e rid resp))
      else ([Forward (enhancedBody e ob rid)],
            new_response rt (read_text (resp_body resp)) (status resp) ''application/json''))"
  by (simp add: render_attempt_def Let_def split_beta)

text \<open>A response that is not 200 and that \<open>new Response\<close> accepts is relayed as it is.\<close>

lemma relay_non_200:
  assumes "pathname req = ''/render''"
      and "read_json rt (req_body req) = Inr ob"
      and "REMOTION_CONTAINER e (enhancedBody e ob rid) = Inr resp"
      and "status resp \<noteq> 200"
      and "200 \<le> status resp" and "status resp \<le> 599"
      and "\<not> null_body_status (status resp)"
  shows "fetch rt e req rid =
           (\<lparr>status = status resp, content_type = Some ''application/json'',
             content_length = None, resp_body = Some (read_text (resp_body resp))\<rparr>,
            [Forward (enhancedBody e ob rid)])"
proof -
  have "new_response rt (read_text (resp_body resp)) (status resp) ''application/json'' =
          Inr \<lparr>status = status resp, content_type = Some ''application/json'',
               content_length = None, resp_body = Some (read_text (resp_body resp))\<rparr>"
    using assms(5,6,7) by (simp add: new_response_def)
  then have "render_attempt rt e req rid =
          ([Forward (enhancedBody e ob rid)],
           Inr \<lparr>status = status resp, content_type = Some ''application/json'',
                content_length = None, resp_body = Some (read_text (resp_body resp))\<rparr>)"
    using assms(2,3,4) by (simp add: render_attempt_answered)
  then show ?thesis using assms(1) by (rule fetch_render[rotated])
qed





text \<open>What the gateway puts into the job is text: it converts, and it is truthy when not empty.\<close>

lemma r2Config_fields:
  "opt_prop (Some (r2Config e)) ''accountId'' = map_option JStr (CLOUDFLARE_ACCOUNT_ID e)"
  "opt_prop (Some (r2Config e)) ''accessKeyId'' = map_option JStr (R2_ACCESS_KEY_ID e)"
  "opt_prop (Some (r2Config e)) ''secretAccessKey'' = map_option JStr (R2_SECRET_ACCESS_KEY e)"
  "opt_prop (Some (r2Config e)) ''bucketName'' = map_option JStr (R2_BUCKET_NAME e)"
  by (simp_all add: r2Config_def json_object_def List.map_filter_simps split: option.splits)

lemma js_string_text: "js_string rt (map_option JStr x) = Some (case x of None \<Rightarrow> ''undefined'' | Some s \<Rightarrow> s)"
  by (cases x) simp_all

text \<open>Decoding and encoding again leaves well-formed UTF-8 as it is.\<close>

lemma relay_well_formed:
  "well_formed_utf8 s \<Longrightarrow> utf8_relay utf8_initial s = s"
proof (induction s rule: well_formed_utf8.induct)
  case 1
  show ?case by (simp add: utf8_initial_def)
next
  case (2 c cs)
  let ?b = "of_char c :: nat"
  from "2.prems" have wf: "well_formed_utf8 (c # cs)" .
  consider (a) "?b \<le> 127" | (b) "194 \<le> ?b \<and> ?b \<le> 223" | (c) "224 \<le> ?b \<and> ?b \<le> 239"
    | (d) "240 \<le> ?b \<and> ?b \<le> 244" | (e) "127 < ?b \<and> \<not> (194 \<le> ?b \<and> ?b \<le> 244)"
    by linarith
  then show ?case
  proof cases
    case a
    with wf have "well_formed_utf8 cs" by (simp add: well_formed_utf8.simps(2))
    with "2.IH"(1) a have "utf8_relay utf8_initial cs = cs" by simp
    with a show ?thesis by (simp add: utf8_lead_def utf8_initial_def)
  next
    case b
    with wf obtain c1 r where cs: "cs = c1 # r" and r1: "in_range 128 191 c1"
      and wr: "well_formed_utf8 r"
      by (auto simp add: well_formed_utf8.simps(2) Let_def split: list.splits)
    from "2.IH"(2) b cs wr have "utf8_relay utf8_initial r = r" by simp
    with b cs r1 show ?thesis
      by (auto simp add: utf8_lead_def utf8_initial_def in_range_def Let_def split: if_splits)
  next
    case c
    with wf obtain c1 c2 r where cs: "cs = c1 # c2 # r"
      and r1: "in_range (if ?b = 224 then 160 else 128) (if ?b = 237 then 159 else 191) c1"
      and r2: "in_range 128 191 c2" and wr: "well_formed_utf8 r"
      by (auto simp add: well_formed_utf8.simps(2) Let_def split: list.splits)
    from "2.IH"(3) c cs wr have "utf8_relay utf8_initial r = r" by simp
    with c cs r1 r2 show ?thesis
      by (auto simp add: utf8_lead_def utf8_initial_def in_range_def Let_def split: if_splits)
  next
    case d
    with wf obtain c1 c2 c3 r where cs: "cs = c1 # c2 # c3 # r"
      and r1: "in_range (if ?b = 240 then 144 else 128) (if ?b = 244 then 143 else 191) c1"
      and r2: "in_range 128 191 c2" and r3: "in_range 128 191 c3" and wr: "well_formed_utf8 r"
      by (auto simp add: well_formed_utf8.simps(2) Let_def split: list.splits)
    from "2.IH"(4) d cs wr have "utf8_relay utf8_initial r = r" by simp
    with d cs r1 r2 r3 show ?thesis
      by (auto simp add: utf8_lead_def utf8_initial_def in_range_def Let_def split: if_splits)
  next
    case e
    with wf show ?thesis
      by (auto simp add: well_formed_utf8.simps(2) Let_def split: if_splits)
  qed
qed

lemma strip_bom_none:
  "\<not> starts_with s [CHR 0xEF, CHR 0xBB, CHR 0xBF] \<Longrightarrow> strip_bom s = s"
  by (induction s rule: strip_bom.induct) auto

lemma utf8_text_well_formed:
  "well_formed_utf8 s \<Longrightarrow> \<not> starts_with s [CHR 0xEF, CHR 0xBB, CHR 0xBF] \<Longrightarrow> utf8_text s = s"
  by (simp add: utf8_text_def strip_bom_none relay_well_formed)

lemma truthy_opt_prop: "truthy (opt_prop c k) \<Longrightarrow> truthy c"
proof (cases c)
  case None
  then show "truthy (opt_prop c k) \<Longrightarrow> truthy c" by simp
next
  case (Some v)
  then show "truthy (opt_prop c k) \<Longrightarrow> truthy c" by (cases v) simp_all
qed


text \<open>The sample deployment, evaluated.\<close>

lemmas sample_defs =
  sample_runtime_def sample_worker_def crashing_worker_def sample_bucket_def
  failing_bucket_def sample_env_def hello_request_def empty_request_def worker_double_def
  unreachable_container_def

lemmas model_defs =
  enhancedBody_def r2Config_def json_object_def List.map_filter_simps container_running_def
  render_handler_def getS3Client_def caught_def res_json_def response_json_def Let_def

text \<open>The decoder on ill-formed input: two stray bytes, a leading byte-order mark, a cut sequence.\<close>

lemma utf8_text_ill_formed:
  "utf8_text [CHR 0xFF, CHR 0xFE] = [CHR 0xEF, CHR 0xBF, CHR 0xBD, CHR 0xEF, CHR 0xBF, CHR 0xBD]"
  "utf8_text [CHR 0xEF, CHR 0xBB, CHR 0xBF, CHR ''o'', CHR ''k''] = ''ok''"
  "utf8_text [CHR ''a'', CHR 0xE2, CHR 0x82] = [CHR ''a'', CHR 0xEF, CHR 0xBF, CHR 0xBD]"
  by (simp_all add: utf8_text_def utf8_initial_def utf8_lead_def replacement_def)

text \<open>Beyond the safe integers the digits are the engine's: \<open>1e21\<close> does not print 22 digits.\<close>

lemma large_number_text:
  "js_string rt (Some (JNum 1000000000000000000000)) = Some (number_text rt 1000000000000000000000)"
  "js_string rt (Some (JNum 9007199254740991)) = Some (dec_of_nat 9007199254740991)"
  by simp_all

text \<open>
  The conversions that throw. A manifest whose \<open>key\<close> is an object with a property
  \<open>toString\<close> makes the gateway's catch handler answer; a job whose \<open>renderId\<close> is such an
  object makes the worker's handler reject after \<open>selectComposition\<close>, and one whose
  \<open>accountId\<close> is makes it answer 500 after the render without any upload.
\<close>

lemma unconvertible_manifest_key_is_caught:
  "fetch sample_runtime
     (sample_env\<lparr>REMOTION_CONTAINER := worker_double
        \<lparr>status = 200, content_type = Some ''application/json'', content_length = None,
         resp_body = Some (JsonText (JObj
           [(''key'', JObj [(''toString'', JNum 1)]), (''size'', JNum 1)]))\<rparr>\<rparr>)
     empty_request ''id-1'' =
     (\<lparr>status = 500, content_type = Some ''application/json'', content_length = None,
       resp_body = Some (JsonText (JObj
         [(''error'', JStr ''Render failed''),
          (''message'', JStr ''Cannot convert object to primitive value''),
          (''renderId'', JStr ''id-1'')]))\<rparr>,
      [Forward (JObj
         [(''renderId'', JStr ''id-1''),
          (''r2Config'', JObj [(''accountId'', JStr ''acct''),
                               (''bucketName'', JStr ''remotion-renders'')])])])"
  by (simp add: fetch_def render_attempt_def on_success_def sample_defs model_defs)

lemma unconvertible_renderId_rejects:
  "render_handler sample_runtime sample_worker (JObj
     [(''compositionId'', JStr ''HelloWorld''),
      (''renderId'', JObj [(''toString'', JNum 1)])]) =
     (Rejected, [SelectComposition (Some (JStr ''HelloWorld'')) None])"
  by (simp add: sample_defs model_defs)

lemma unconvertible_accountId_is_caught:
  "render_handler sample_runtime sample_worker (JObj
     [(''compositionId'', JStr ''HelloWorld''),
      (''renderId'', JStr ''id-1''),
      (''r2Config'', JObj [(''accountId'', JObj [(''toString'', JNum 1)]),
                           (''accessKeyId'', JStr ''key-id''),
                           (''secretAccessKey'', JStr ''secret'')])]) =
     (Sent \<lparr>status = 500, content_type = Some ''application/json; charset=utf-8'',
            content_length = None,
            resp_body = Some (JsonText (JObj
              [(''message'', JStr ''Error rendering video.''),
               (''error'', JStr ''TypeError: Cannot convert object to primitive value'')]))\<rparr>,
      [SelectComposition (Some (JStr ''HelloWorld'')) None,
       RenderMedia ''composition'' None])"
  by (simp add: sample_defs model_defs)

section \<open>The streaming path\<close>

text \<open>
  C1 (as amended). On a render request whose body parses, when the worker answers 200 with
  a Content-Type that does not include \<open>application/json\<close> and with a body, and the put
  succeeds, the gateway makes exactly one put: of that body, under the key
  \<open>{renderId}.mp4\<close>, with the fixed content type \<open>video/mp4\<close> (whatever type the worker
  declared). The \<open>size\<close> of the result returned with status 200 is the size that the
  bucket reports for the stored object; the declared \<open>Content-Length\<close> of the worker's
  response plays no part.
\<close>

theorem streaming_upload_stored_as_mp4:
  assumes "pathname req = ''/render''"
      and "read_json rt (req_body req) = Inr originalBody"
      and "REMOTION_CONTAINER e (enhancedBody e originalBody renderId) = Inr resp"
      and "status resp = 200"
      and "\<not> str_includes (or_empty (content_type resp)) ''application/json''"
      and "resp_body resp = Some body"
      and "R2_BUCKET e (renderId @ ''.mp4'') body ''video/mp4'' = Inr r2Object"
  shows "fetch rt e req renderId =
           (response_json (json_object
              [(''renderId'', Some (JStr renderId)),
               (''bucketName'', map_option JStr (R2_BUCKET_NAME e)),
               (''key'', Some (JStr (renderId @ ''.mp4''))),
               (''size'', Some (JNum (int (obj_size r2Object)))),
               (''url'', Some (JStr (''https://renders.tremendous.dev/'' @ renderId @ ''.mp4'')))])
              200,
            [Forward (enhancedBody e originalBody renderId),
             Put (renderId @ ''.mp4'') body ''video/mp4''])"
proof -
  let ?result = "response_json (json_object
              [(''renderId'', Some (JStr renderId)),
               (''bucketName'', map_option JStr (R2_BUCKET_NAME e)),
               (''key'', Some (JStr (renderId @ ''.mp4''))),
               (''size'', Some (JNum (int (obj_size r2Object)))),
               (''url'', Some (JStr (''https://renders.tremendous.dev/'' @ renderId @ ''.mp4'')))])
              200"
  have "on_success rt e renderId resp =
          ([Put (renderId @ ''.mp4'') body ''video/mp4''], Inr ?result)"
    using assms(5,6,7) by (simp add: on_success_def Let_def)
  then have "render_attempt rt e req renderId =
          ([Forward (enhancedBody e originalBody renderId),
            Put (renderId @ ''.mp4'') body ''video/mp4''], Inr ?result)"
    using assms(2,3,4) by (simp add: render_attempt_answered)
  then show ?thesis using assms(1) by (rule fetch_render[rotated])
qed

text \<open>
  A worker double that sends ten raw bytes and declares \<open>Content-Length: 4096\<close>: the bytes
  are stored, and the size returned is the 10 that the bucket reports.
\<close>

theorem streaming_upload_stored_as_mp4_witness:
  "fetch sample_runtime
     (sample_env\<lparr>REMOTION_CONTAINER := worker_double
        \<lparr>status = 200, content_type = Some ''video/mp4'', content_length = Some 4096,
         resp_body = Some (Raw ''0123456789'')\<rparr>\<rparr>)
     hello_request ''id-1'' =
     (\<lparr>status = 200, content_type = Some ''application/json'', content_length = None,
       resp_body = Some (JsonText (JObj
         [(''renderId'', JStr ''id-1''),
          (''bucketName'', JStr ''remotion-renders''),
          (''key'', JStr ''id-1.mp4''),
          (''size'', JNum 10),
          (''url'', JStr ''https://renders.tremendous.dev/id-1.mp4'')]))\<rparr>,
      [Forward (JObj
         [(''compositionId'', JStr ''HelloWorld''),
          (''renderId'', JStr ''id-1''),
          (''r2Config'', JObj [(''accountId'', JStr ''acct''),
                               (''bucketName'', JStr ''remotion-renders'')])]),
       Put ''id-1.mp4'' (Raw ''0123456789'') ''video/mp4''])"
proof -
  let ?resp = "\<lparr>status = 200, content_type = Some ''video/mp4'', content_length = Some 4096,
                resp_body = Some (Raw ''0123456789'')\<rparr>"
  let ?env = "sample_env\<lparr>REMOTION_CONTAINER := worker_double ?resp\<rparr>"
  have h1: "pathname hello_request = ''/render''"
    by (simp add: sample_defs)
  have h2: "read_json sample_runtime (req_body hello_request) =
              Inr (JObj [(''compositionId'', JStr ''HelloWorld'')])"
    by (simp add: sample_defs)
  have h3: "REMOTION_CONTAINER ?env
              (enhancedBody ?env (JObj [(''compositionId'', JStr ''HelloWorld'')]) ''id-1'')
            = Inr ?resp"
    by (simp add: sample_defs)
  have h4: "status ?resp = 200" by simp
  have h5: "\<not> str_includes (or_empty (content_type ?resp)) ''application/json''" by simp
  have h6: "resp_body ?resp = Some (Raw ''0123456789'')" by simp
  have h7: "R2_BUCKET ?env (''id-1'' @ ''.mp4'') (Raw ''0123456789'') ''video/mp4'' =
              Inr \<lparr>obj_key = ''id-1.mp4'', obj_size = 10\<rparr>"
    by (simp add: sample_defs)
  show ?thesis
    using streaming_upload_stored_as_mp4 [OF h1 h2 h3 h4 h5 h6 h7]
    by (simp add: sample_defs model_defs)
qed

text \<open>
  C1 as stated fails: a worker double that declares \<open>video/webm\<close> has its body stored as
  \<open>video/mp4\<close>; no put with the declared type is made.
\<close>

theorem declared_content_type_not_kept:
  "snd (fetch sample_runtime
          (sample_env\<lparr>REMOTION_CONTAINER := worker_double
             \<lparr>status = 200, content_type = Some ''video/webm'', content_length = Some 3,
              resp_body = Some (Raw ''abc'')\<rparr>\<rparr>)
          hello_request ''id-1'') =
     [Forward (JObj
        [(''compositionId'', JStr ''HelloWorld''),
         (''renderId'', JStr ''id-1''),
         (''r2Config'', JObj [(''accountId'', JStr ''acct''),
                              (''bucketName'', JStr ''remotion-renders'')])]),
      Put ''id-1.mp4'' (Raw ''abc'') ''video/mp4'']
   \<and> Put ''id-1.mp4'' (Raw ''abc'') ''video/webm'' \<notin>
       set (snd (fetch sample_runtime
          (sample_env\<lparr>REMOTION_CONTAINER := worker_double
             \<lparr>status = 200, content_type = Some ''video/webm'', content_length = Some 3,
              resp_body = Some (Raw ''abc'')\<rparr>\<rparr>)
          hello_request ''id-1''))"
  by (simp add: fetch_def render_attempt_def on_success_def sample_defs model_defs)

section \<open>The manifest path\<close>

text \<open>
  C2. On a render request whose body parses, when the worker answers 200 with a
  Content-Type that includes \<open>application/json\<close>, the only external call of the whole
  request is the forward: there is no put, so no artifact byte passes through the gateway
  (the worker's response body is read once, as the manifest). When the body is a manifest
  (JSON other than \<open>null\<close>, with a \<open>key\<close> that has a string conversion, as every string
  has), the gateway answers 200 with a result built from the manifest's \<open>key\<close> and \<open>size\<close>.
\<close>

theorem manifest_path_builds_result_without_storage_io:
  assumes "pathname req = ''/render''"
      and "read_json rt (req_body req) = Inr originalBody"
      and "REMOTION_CONTAINER e (enhancedBody e originalBody renderId) = Inr resp"
      and "status resp = 200"
      and "str_includes (or_empty (content_type resp)) ''application/json''"
  shows "snd (fetch rt e req renderId) = [Forward (enhancedBody e originalBody renderId)]
         \<and> (resp_body resp = Some (JsonText manifest) \<and> manifest \<noteq> JNull
              \<and> js_string rt (get_prop manifest ''key'') = Some keyText \<longrightarrow>
            fst (fetch rt e req renderId) =
              response_json (json_object
                [(''renderId'', Some (JStr renderId)),
                 (''bucketName'', map_option JStr (R2_BUCKET_NAME e)),
                 (''key'', get_prop manifest ''key''),
                 (''size'', get_prop manifest ''size''),
                 (''url'', Some (JStr (''https://renders.tremendous.dev/'' @ keyText)))]) 200)"
proof (intro conjI impI)
  have "fst (on_success rt e renderId resp) = []"
    using assms(5)
    by (simp add: on_success_def Let_def split: sum.splits json.splits option.splits)
  then have "fst (render_attempt rt e req renderId) =
               [Forward (enhancedBody e originalBody renderId)]"
    using assms(2,3,4) by (simp add: render_attempt_answered)
  moreover have "snd (fetch rt e req renderId) = fst (render_attempt rt e req renderId)"
    using assms(1) by (simp add: fetch_def split: prod.splits sum.splits)
  ultimately show "snd (fetch rt e req renderId) =
                     [Forward (enhancedBody e originalBody renderId)]"
    by simp
next
  let ?result = "response_json (json_object
                [(''renderId'', Some (JStr renderId)),
                 (''bucketName'', map_option JStr (R2_BUCKET_NAME e)),
                 (''key'', get_prop manifest ''key''),
                 (''size'', get_prop manifest ''size''),
                 (''url'', Some (JStr (''https://renders.tremendous.dev/'' @ keyText)))]) 200"
  assume m: "resp_body resp = Some (JsonText manifest) \<and> manifest \<noteq> JNull
             \<and> js_string rt (get_prop manifest ''key'') = Some keyText"
  then have "on_success rt e renderId resp = ([], Inr ?result)"
    using assms(5) by (cases manifest) (simp_all add: on_success_def Let_def)
  then have "render_attempt rt e req renderId =
          ([Forward (enhancedBody e originalBody renderId)], Inr ?result)"
    using assms(2,3,4) by (simp add: render_attempt_answered)
  from fetch_render [OF assms(1) this] show "fst (fetch rt e req renderId) = ?result"
    by simp
qed

text \<open>
  The spec's scenario A: a worker double answers with the manifest
  \<open>{"key":"abc.mp4","size":2048}\<close>, and a bucket on which every put fails is never asked.
\<close>

theorem manifest_path_builds_result_without_storage_io_witness:
  "fetch sample_runtime
     (sample_env\<lparr>REMOTION_CONTAINER := worker_double
        \<lparr>status = 200, content_type = Some ''application/json'', content_length = None,
         resp_body = Some (JsonText (JObj [(''key'', JStr ''abc.mp4''), (''size'', JNum 2048)]))\<rparr>,
       R2_BUCKET := failing_bucket\<rparr>)
     hello_request ''id-1'' =
     (\<lparr>status = 200, content_type = Some ''application/json'', content_length = None,
       resp_body = Some (JsonText (JObj
         [(''renderId'', JStr ''id-1''),
          (''bucketName'', JStr ''remotion-renders''),
          (''key'', JStr ''abc.mp4''),
          (''size'', JNum 2048),
          (''url'', JStr ''https://renders.tremendous.dev/abc.mp4'')]))\<rparr>,
      [Forward (JObj
         [(''compositionId'', JStr ''HelloWorld''),
          (''renderId'', JStr ''id-1''),
          (''r2Config'', JObj [(''accountId'', JStr ''acct''),
                               (''bucketName'', JStr ''remotion-renders'')])])])"
proof -
  let ?manifest = "JObj [(''key'', JStr ''abc.mp4''), (''size'', JNum 2048)]"
  let ?resp = "\<lparr>status = 200, content_type = Some ''application/json'', content_length = None,
                resp_body = Some (JsonText ?manifest)\<rparr>"
  let ?env = "sample_env\<lparr>REMOTION_CONTAINER := worker_double ?resp, R2_BUCKET := failing_bucket\<rparr>"
  let ?f = "fetch sample_runtime ?env hello_request ''id-1''"
  have h1: "pathname hello_request = ''/render''"
    by (simp add: sample_defs)
  have h2: "read_json sample_runtime (req_body hello_request) =
              Inr (JObj [(''compositionId'', JStr ''HelloWorld'')])"
    by (simp add: sample_defs)
  have h3: "REMOTION_CONTAINER ?env
              (enhancedBody ?env (JObj [(''compositionId'', JStr ''HelloWorld'')]) ''id-1'')
            = Inr ?resp"
    by (simp add: sample_defs)
  have h4: "status ?resp = 200" by simp
  have h5: "str_includes (or_empty (content_type ?resp)) ''application/json''" by simp
  have h6: "resp_body ?resp = Some (JsonText ?manifest) \<and> ?manifest \<noteq> JNull
            \<and> js_string sample_runtime (get_prop ?manifest ''key'') = Some ''abc.mp4''"
    by simp
  note both = manifest_path_builds_result_without_storage_io
                [OF h1 h2 h3 h4 h5, of ?manifest "''abc.mp4''"]
  from both have calls: "snd ?f =
      [Forward (enhancedBody ?env (JObj [(''compositionId'', JStr ''HelloWorld'')]) ''id-1'')]"
    by (rule conjunct1)
  from both h6 have answer: "fst ?f = response_json (json_object
                [(''renderId'', Some (JStr ''id-1'')),
                 (''bucketName'', map_option JStr (R2_BUCKET_NAME ?env)),
                 (''key'', get_prop ?manifest ''key''),
                 (''size'', get_prop ?manifest ''size''),
                 (''url'', Some (JStr (''https://renders.tremendous.dev/'' @ ''abc.mp4'')))]) 200"
    by blast
  have "?f = (fst ?f, snd ?f)" by simp
  also have "\<dots> = (\<lparr>status = 200, content_type = Some ''application/json'', content_length = None,
       resp_body = Some (JsonText (JObj
         [(''renderId'', JStr ''id-1''),
          (''bucketName'', JStr ''remotion-renders''),
          (''key'', JStr ''abc.mp4''),
          (''size'', JNum 2048),
          (''url'', JStr ''https://renders.tremendous.dev/abc.mp4'')]))\<rparr>,
      [Forward (JObj
         [(''compositionId'', JStr ''HelloWorld''),
          (''renderId'', JStr ''id-1''),
          (''r2Config'', JObj [(''accountId'', JStr ''acct''),
                               (''bucketName'', JStr ''remotion-renders'')])])])"
    unfolding calls answer by (simp add: sample_defs model_defs)
  finally show ?thesis .
qed

section \<open>Worker faults\<close>

text \<open>
  C7 (as amended). When the worker's response has a status other than 200 with which a
  response that has a body can be built (200..599 except 204, 205 and 304), the gateway
  relays it: the caller receives the worker's own status (a 500 only when the worker sent
  500) and the worker's body, declared as \<open>application/json\<close>. The body passes through a
  UTF-8 decoder and encoder on the way; it arrives byte for byte whenever it is well-formed
  UTF-8 that does not begin with a byte-order mark.
\<close>

theorem worker_fault_relayed_with_worker_status:
  assumes "pathname req = ''/render''"
      and "read_json rt (req_body req) = Inr originalBody"
      and "REMOTION_CONTAINER e (enhancedBody e originalBody renderId) = Inr resp"
      and "status resp \<noteq> 200"
      and "200 \<le> status resp" and "status resp \<le> 599"
      and "\<not> null_body_status (status resp)"
  shows "fetch rt e req renderId =
           (\<lparr>status = status resp, content_type = Some ''application/json'',
             content_length = None, resp_body = Some (read_text (resp_body resp))\<rparr>,
            [Forward (enhancedBody e originalBody renderId)])
         \<and> (resp_body resp = Some (Raw s) \<and> well_formed_utf8 s
              \<and> \<not> starts_with s [CHR 0xEF, CHR 0xBB, CHR 0xBF] \<longrightarrow>
            read_text (resp_body resp) = Raw s)"
proof (intro conjI impI)
  show "fetch rt e req renderId =
           (\<lparr>status = status resp, content_type = Some ''application/json'',
             content_length = None, resp_body = Some (read_text (resp_body resp))\<rparr>,
            [Forward (enhancedBody e originalBody renderId)])"
    using assms by (rule relay_non_200)
next
  assume "resp_body resp = Some (Raw s) \<and> well_formed_utf8 s
          \<and> \<not> starts_with s [CHR 0xEF, CHR 0xBB, CHR 0xBF]"
  then show "read_text (resp_body resp) = Raw s"
    by (simp add: utf8_text_well_formed)
qed

text \<open>
  The spec's scenario D: a worker double answers 500 with the text \<open>renderer crashed\<close>,
  and the caller receives that status and that text.
\<close>

theorem worker_fault_relayed_with_worker_status_witness:
  "fetch sample_runtime
     (sample_env\<lparr>REMOTION_CONTAINER := worker_double
        \<lparr>status = 500, content_type = Some ''text/plain'', content_length = None,
         resp_body = Some (Raw ''renderer crashed'')\<rparr>\<rparr>)
     hello_request ''id-1'' =
     (\<lparr>status = 500, content_type = Some ''application/json'', content_length = None,
       resp_body = Some (Raw ''renderer crashed'')\<rparr>,
      [Forward (JObj
         [(''compositionId'', JStr ''HelloWorld''),
          (''renderId'', JStr ''id-1''),
          (''r2Config'', JObj [(''accountId'', JStr ''acct''),
                               (''bucketName'', JStr ''remotion-renders'')])])])"
proof -
  let ?resp = "\<lparr>status = 500, content_type = Some ''text/plain'', content_length = None,
                resp_body = Some (Raw ''renderer crashed'')\<rparr>"
  let ?env = "sample_env\<lparr>REMOTION_CONTAINER := worker_double ?resp\<rparr>"
  have h1: "pathname hello_request = ''/render''"
    by (simp add: sample_defs)
  have h2: "read_json sample_runtime (req_body hello_request) =
              Inr (JObj [(''compositionId'', JStr ''HelloWorld'')])"
    by (simp add: sample_defs)
  have h3: "REMOTION_CONTAINER ?env
              (enhancedBody ?env (JObj [(''compositionId'', JStr ''HelloWorld'')]) ''id-1'')
            = Inr ?resp"
    by (simp add: sample_defs)
  have h4: "status ?resp \<noteq> 200" by simp
  have h5: "200 \<le> status ?resp" by simp
  have h6: "status ?resp \<le> 599" by simp
  have h7: "\<not> null_body_status (status ?resp)" by (simp add: null_body_status_def)
  have h8: "resp_body ?resp = Some (Raw ''renderer crashed'')
            \<and> well_formed_utf8 ''renderer crashed''
            \<and> \<not> starts_with ''renderer crashed'' [CHR 0xEF, CHR 0xBB, CHR 0xBF]"
    by (simp add: well_formed_utf8.simps(2))
  note both = worker_fault_relayed_with_worker_status
                [OF h1 h2 h3 h4 h5 h6 h7, of "''renderer crashed''"]
  from both h8 have same: "read_text (resp_body ?resp) = Raw ''renderer crashed''"
    by blast
  from both have "fetch sample_runtime ?env hello_request ''id-1'' =
           (\<lparr>status = status ?resp, content_type = Some ''application/json'',
             content_length = None, resp_body = Some (read_text (resp_body ?resp))\<rparr>,
            [Forward (enhancedBody ?env (JObj [(''compositionId'', JStr ''HelloWorld'')]) ''id-1'')])"
    by (rule conjunct1)
  then show ?thesis
    unfolding same by (simp add: sample_defs model_defs)
qed

text \<open>
  C7 as stated fails: a worker double that answers 503 \<open>renderer crashed\<close> has the caller
  receive 503, not 500.
\<close>

theorem worker_503_is_not_turned_into_500:
  "fst (fetch sample_runtime
          (sample_env\<lparr>REMOTION_CONTAINER := worker_double
             \<lparr>status = 503, content_type = Some ''text/plain'', content_length = None,
              resp_body = Some (Raw ''renderer crashed'')\<rparr>\<rparr>)
          hello_request ''id-1'') =
     \<lparr>status = 503, content_type = Some ''application/json'', content_length = None,
      resp_body = Some (Raw ''renderer crashed'')\<rparr>
   \<and> status (fst (fetch sample_runtime
          (sample_env\<lparr>REMOTION_CONTAINER := worker_double
             \<lparr>status = 503, content_type = Some ''text/plain'', content_length = None,
              resp_body = Some (Raw ''renderer crashed'')\<rparr>\<rparr>)
          hello_request ''id-1'')) \<noteq> 500"
  by (simp add: fetch_def render_attempt_def new_response_def null_body_status_def
                utf8_text_well_formed well_formed_utf8.simps(2) sample_defs model_defs)

text \<open>
  C8. On the streaming path (status 200, Content-Type not including \<open>application/json\<close>), a
  worker response without a body makes the gateway answer 500 with the error
  \<open>Empty response from container\<close>; the forward is the only external call, so nothing is
  put into storage, and the payload is no render result.
\<close>

theorem empty_artifact_fails_without_write:
  assumes "pathname req = ''/render''"
      and "read_json rt (req_body req) = Inr originalBody"
      and "REMOTION_CONTAINER e (enhancedBody e originalBody renderId) = Inr resp"
      and "status resp = 200"
      and "\<not> str_includes (or_empty (content_type resp)) ''application/json''"
      and "resp_body resp = None"
  shows "fetch rt e req renderId =
           (response_json (JObj [(''error'', JStr ''Empty response from container'')]) 500,
            [Forward (enhancedBody e originalBody renderId)])"
proof -
  have "on_success rt e renderId resp =
          ([], Inr (response_json (JObj [(''error'', JStr ''Empty response from container'')]) 500))"
    using assms(5,6) by (simp add: on_success_def)
  then have "render_attempt rt e req renderId =
          ([Forward (enhancedBody e originalBody renderId)],
           Inr (response_json (JObj [(''error'', JStr ''Empty response from container'')]) 500))"
    using assms(2,3,4) by (simp add: render_attempt_answered)
  then show ?thesis using assms(1) by (rule fetch_render[rotated])
qed

theorem empty_artifact_fails_without_write_witness:
  "fetch sample_runtime
     (sample_env\<lparr>REMOTION_CONTAINER := worker_double
        \<lparr>status = 200, content_type = Some ''video/mp4'', content_length = Some 4096,
         resp_body = None\<rparr>\<rparr>)
     hello_request ''id-1'' =
     (\<lparr>status = 500, content_type = Some ''application/json'', content_length = None,
       resp_body = Some (JsonText (JObj [(''error'', JStr ''Empty response from container'')]))\<rparr>,
      [Forward (JObj
         [(''compositionId'', JStr ''HelloWorld''),
          (''renderId'', JStr ''id-1''),
          (''r2Config'', JObj [(''accountId'', JStr ''acct''),
                               (''bucketName'', JStr ''remotion-renders'')])])])"
proof -
  let ?resp = "\<lparr>status = 200, content_type = Some ''video/mp4'', content_length = Some 4096,
                resp_body = None\<rparr>"
  let ?env = "sample_env\<lparr>REMOTION_CONTAINER := worker_double ?resp\<rparr>"
  have h1: "pathname hello_request = ''/render''"
    by (simp add: sample_defs)
  have h2: "read_json sample_runtime (req_body hello_request) =
              Inr (JObj [(''compositionId'', JStr ''HelloWorld'')])"
    by (simp add: sample_defs)
  have h3: "REMOTION_CONTAINER ?env
              (enhancedBody ?env (JObj [(''compositionId'', JStr ''HelloWorld'')]) ''id-1'')
            = Inr ?resp"
    by (simp add: sample_defs)
  have h4: "status ?resp = 200" by simp
  have h5: "\<not> str_includes (or_empty (content_type ?resp)) ''application/json''" by simp
  have h6: "resp_body ?resp = None" by simp
  show ?thesis
    using empty_artifact_fails_without_write [OF h1 h2 h3 h4 h5 h6]
    by (simp add: sample_defs model_defs)
qed

section \<open>Validation of the caller's input\<close>







section \<open>The correlation identifier and the credentials\<close>




text \<open>
  C4 (as amended). On every request to \<open>/render\<close> whose body parses, whatever the
  configuration, the first external call is the forward of a job that carries the
  correlation identifier and an \<open>r2Config\<close> object: the object literal of the four
  configuration values, in which exactly the values that are defined appear. No test of the
  configuration is made, and a configuration without credentials raises no error.
\<close>

theorem r2Config_attached_unconditionally:
  assumes "pathname req = ''/render''"
      and "read_json rt (req_body req) = Inr originalBody"
  shows "\<exists>job rest. snd (fetch rt e req renderId) = Forward job # rest
            \<and> get_prop job ''r2Config'' = Some (r2Config e)
            \<and> get_prop job ''renderId'' = Some (JStr renderId)"
proof -
  let ?job = "enhancedBody e originalBody renderId"
  have "\<exists>rest. fst (render_attempt rt e req renderId) = Forward ?job # rest"
    using assms(2)
    by (simp add: render_attempt_def Let_def split_beta split: sum.splits)
  then obtain rest where "fst (render_attempt rt e req renderId) = Forward ?job # rest" ..
  moreover have "snd (fetch rt e req renderId) = fst (render_attempt rt e req renderId)"
    using assms(1) by (simp add: fetch_def split: prod.splits sum.splits)
  ultimately have "snd (fetch rt e req renderId) = Forward ?job # rest" by simp
  moreover have "get_prop ?job ''r2Config'' = Some (r2Config e)"
    by (simp add: get_prop_enhancedBody)
  moreover have "get_prop ?job ''renderId'' = Some (JStr renderId)"
    by (simp add: get_prop_enhancedBody)
  ultimately show ?thesis by blast
qed

text \<open>With none of the four values configured, the job still carries an (empty) \<open>r2Config\<close>.\<close>

theorem r2Config_attached_unconditionally_witness:
  "\<exists>job rest.
      snd (fetch sample_runtime
             (sample_env\<lparr>R2_BUCKET_NAME := None, CLOUDFLARE_ACCOUNT_ID := None\<rparr>)
             hello_request ''id-1'') = Forward job # rest
      \<and> get_prop job ''r2Config'' = Some (JObj [])
      \<and> get_prop job ''renderId'' = Some (JStr ''id-1'')"
proof -
  let ?env = "sample_env\<lparr>R2_BUCKET_NAME := None, CLOUDFLARE_ACCOUNT_ID := None\<rparr>"
  have h1: "pathname hello_request = ''/render''"
    by (simp add: sample_defs)
  have h2: "read_json sample_runtime (req_body hello_request) =
              Inr (JObj [(''compositionId'', JStr ''HelloWorld'')])"
    by (simp add: sample_defs)
  have "r2Config ?env = JObj []"
    by (simp add: sample_defs r2Config_def json_object_def List.map_filter_simps)
  with r2Config_attached_unconditionally [OF h1 h2, of ?env "''id-1''"] show ?thesis
    by simp
qed

text \<open>
  C4 as stated fails: with an access key id configured and no secret, the gateway does not
  possess the credentials, and the forwarded job carries an \<open>r2Config\<close> with the account
  id, the access key id and the bucket name.
\<close>

theorem partial_credentials_are_forwarded:
  "R2_SECRET_ACCESS_KEY (sample_env\<lparr>R2_ACCESS_KEY_ID := Some ''key-id''\<rparr>) = None
   \<and> hd (snd (fetch sample_runtime (sample_env\<lparr>R2_ACCESS_KEY_ID := Some ''key-id''\<rparr>)
                 hello_request ''id-1'')) =
       Forward (JObj
         [(''compositionId'', JStr ''HelloWorld''),
          (''renderId'', JStr ''id-1''),
          (''r2Config'', JObj [(''accountId'', JStr ''acct''),
                               (''accessKeyId'', JStr ''key-id''),
                               (''bucketName'', JStr ''remotion-renders'')])])"
  by (simp add: fetch_def render_attempt_def on_success_def sample_defs model_defs)

section \<open>Routing\<close>



section \<open>The worker's choice of completion path\<close>

text \<open>
  C10. For a job that the gateway forwards (the caller's body with the gateway's
  \<open>renderId\<close> and \<open>r2Config\<close>), once the worker has rendered it, the worker takes the
  self-upload path (it sends a \<open>PutObjectCommand\<close>) exactly when \<open>r2Config.accountId\<close>,
  \<open>r2Config.accessKeyId\<close>, \<open>r2Config.secretAccessKey\<close> and \<open>renderId\<close> are all present in the
  job, presence being what the code tests: the value is truthy (defined and not the empty
  string). \<open>bucketName\<close> is no part of the test: on the self-upload path the command's
  bucket is whatever \<open>r2Config.bucketName\<close> is, \<open>undefined\<close> included, the key is
  \<open>{renderId}.mp4\<close>, and the worker answers 200 with the manifest when the command succeeds
  and 500 when it fails. Otherwise the worker calls the renderer only and answers 200 with
  the raw file as \<open>video/mp4\<close>.
\<close>

theorem self_upload_iff_credentials_and_renderId:
  assumes "job = enhancedBody e originalBody renderId"
      and "truthy (get_prop job ''compositionId'')"
      and "select_composition wp (get_prop job ''compositionId'') (get_prop job ''inputProps'')
             = Inr composition"
      and "render_media wp composition (get_prop job ''inputProps'') = Inr fileBuffer"
  shows "self_upload (snd (render_handler rt wp job)) =
           (truthy (opt_prop (get_prop job ''r2Config'') ''accountId'')
            \<and> truthy (opt_prop (get_prop job ''r2Config'') ''accessKeyId'')
            \<and> truthy (opt_prop (get_prop job ''r2Config'') ''secretAccessKey'')
            \<and> truthy (get_prop job ''renderId''))
         \<and> (self_upload (snd (render_handler rt wp job)) \<longrightarrow>
              (\<exists>client.
                 getS3Client rt (get_prop job ''r2Config'') = Client client
                 \<and> snd (render_handler rt wp job) =
                     [SelectComposition (get_prop job ''compositionId'') (get_prop job ''inputProps''),
                      RenderMedia composition (get_prop job ''inputProps''),
                      S3Send client (opt_prop (get_prop job ''r2Config'') ''bucketName'')
                        (renderId @ ''.mp4'') fileBuffer ''video/mp4'']
                 \<and> fst (render_handler rt wp job) =
                     (case s3_send wp client (opt_prop (get_prop job ''r2Config'') ''bucketName'')
                             (renderId @ ''.mp4'') fileBuffer ''video/mp4'' of
                        Inl stack \<Rightarrow>
                          Sent (res_json 500 (JObj [(''message'', JStr ''Error rendering video.''),
                                                    (''error'', JStr stack)]))
                      | Inr u \<Rightarrow>
                          Sent (res_json 200 (JObj
                            [(''success'', JBool True),
                             (''renderId'', JStr renderId),
                             (''key'', JStr (renderId @ ''.mp4'')),
                             (''size'', JNum (int (length fileBuffer))),
                             (''uploadedToR2'', JBool True)])))))
         \<and> (\<not> self_upload (snd (render_handler rt wp job)) \<longrightarrow>
              snd (render_handler rt wp job) =
                [SelectComposition (get_prop job ''compositionId'') (get_prop job ''inputProps''),
                 RenderMedia composition (get_prop job ''inputProps'')]
              \<and> fst (render_handler rt wp job) =
                  Sent \<lparr>status = 200, content_type = Some ''video/mp4'',
                        content_length = Some (length fileBuffer),
                        resp_body = Some (Raw fileBuffer)\<rparr>)"
proof -
  let ?cond = "truthy (map_option JStr (CLOUDFLARE_ACCOUNT_ID e))
               \<and> truthy (map_option JStr (R2_ACCESS_KEY_ID e))
               \<and> truthy (map_option JStr (R2_SECRET_ACCESS_KEY e))
               \<and> renderId \<noteq> []"
  have rid: "get_prop job ''renderId'' = Some (JStr renderId)"
    and cfg: "get_prop job ''r2Config'' = Some (r2Config e)"
    using assms(1) by (simp_all add: get_prop_enhancedBody)
  have obj: "truthy (Some (r2Config e))"
    by (simp add: r2Config_def json_object_def)
  show ?thesis
  proof (cases ?cond)
    case True
    with assms(2,3,4) rid cfg obj show ?thesis
      by (simp add: render_handler_def Let_def getS3Client_def caught_def self_upload_def
                    r2Config_fields js_string_text json_object_def List.map_filter_simps
               split: sum.splits)
  next
    case False
    with assms(2,3,4) rid cfg obj show ?thesis
      by (auto simp add: render_handler_def Let_def getS3Client_def caught_def self_upload_def
                         r2Config_fields js_string_text
               split: sum.splits)
  qed
qed

text \<open>
  The job that the gateway forwards when its configuration has the three credentials and
  no bucket name: self-upload, to no bucket, answered with the manifest.
\<close>

theorem self_upload_iff_credentials_and_renderId_witness:
  "self_upload (snd (render_handler sample_runtime sample_worker (JObj
     [(''compositionId'', JStr ''HelloWorld''),
      (''renderId'', JStr ''id-1''),
      (''r2Config'', JObj [(''accountId'', JStr ''acct''),
                           (''accessKeyId'', JStr ''key-id''),
                           (''secretAccessKey'', JStr ''secret'')])])))
   \<and> render_handler sample_runtime sample_worker (JObj
     [(''compositionId'', JStr ''HelloWorld''),
      (''renderId'', JStr ''id-1''),
      (''r2Config'', JObj [(''accountId'', JStr ''acct''),
                           (''accessKeyId'', JStr ''key-id''),
                           (''secretAccessKey'', JStr ''secret'')])]) =
     (Sent \<lparr>status = 200, content_type = Some ''application/json; charset=utf-8'',
            content_length = None,
            resp_body = Some (JsonText (JObj
              [(''success'', JBool True),
               (''renderId'', JStr ''id-1''),
               (''key'', JStr ''id-1.mp4''),
               (''size'', JNum 10),
               (''uploadedToR2'', JBool True)]))\<rparr>,
      [SelectComposition (Some (JStr ''HelloWorld'')) None,
       RenderMedia ''composition'' None,
       S3Send \<lparr>endpoint = ''https://acct.r2.cloudflarestorage.com'',
               accessKeyId = JStr ''key-id'', secretAccessKey = JStr ''secret''\<rparr>
         None ''id-1.mp4'' ''0123456789'' ''video/mp4''])"
proof -
  let ?env = "sample_env\<lparr>R2_BUCKET_NAME := None, R2_ACCESS_KEY_ID := Some ''key-id'',
                         R2_SECRET_ACCESS_KEY := Some ''secret''\<rparr>"
  let ?job = "JObj
     [(''compositionId'', JStr ''HelloWorld''),
      (''renderId'', JStr ''id-1''),
      (''r2Config'', JObj [(''accountId'', JStr ''acct''),
                           (''accessKeyId'', JStr ''key-id''),
                           (''secretAccessKey'', JStr ''secret'')])]"
  let ?h = "render_handler sample_runtime sample_worker ?job"
  have h1: "?job = enhancedBody ?env (JObj [(''compositionId'', JStr ''HelloWorld'')]) ''id-1''"
    by (simp add: sample_defs enhancedBody_def r2Config_def json_object_def
                  List.map_filter_simps)
  have h2: "truthy (get_prop ?job ''compositionId'')" by simp
  have h3: "select_composition sample_worker (get_prop ?job ''compositionId'')
              (get_prop ?job ''inputProps'') = Inr ''composition''"
    by (simp add: sample_defs)
  have h4: "render_media sample_worker ''composition'' (get_prop ?job ''inputProps'')
              = Inr ''0123456789''"
    by (simp add: sample_defs)
  note sel = self_upload_iff_credentials_and_renderId
               [OF h1 h2 h3 h4, of sample_runtime]
  from sel have su: "self_upload (snd ?h)"
    by simp
  with sel obtain client where
      c: "getS3Client sample_runtime (get_prop ?job ''r2Config'') = Client client"
    and calls: "snd ?h =
         [SelectComposition (get_prop ?job ''compositionId'') (get_prop ?job ''inputProps''),
          RenderMedia ''composition'' (get_prop ?job ''inputProps''),
          S3Send client (opt_prop (get_prop ?job ''r2Config'') ''bucketName'')
            (''id-1'' @ ''.mp4'') ''0123456789'' ''video/mp4'']"
    and answer: "fst ?h =
         (case s3_send sample_worker client (opt_prop (get_prop ?job ''r2Config'') ''bucketName'')
                 (''id-1'' @ ''.mp4'') ''0123456789'' ''video/mp4'' of
            Inl stack \<Rightarrow>
              Sent (res_json 500 (JObj [(''message'', JStr ''Error rendering video.''),
                                        (''error'', JStr stack)]))
          | Inr u \<Rightarrow>
              Sent (res_json 200 (JObj
                [(''success'', JBool True),
                 (''renderId'', JStr ''id-1''),
                 (''key'', JStr (''id-1'' @ ''.mp4'')),
                 (''size'', JNum (int (length ''0123456789''))),
                 (''uploadedToR2'', JBool True)])))"
    by blast
  from c have client: "client = \<lparr>endpoint = ''https://acct.r2.cloudflarestorage.com'',
               accessKeyId = JStr ''key-id'', secretAccessKey = JStr ''secret''\<rparr>"
    by (simp add: getS3Client_def)
  have "?h = (fst ?h, snd ?h)" by simp
  also have "\<dots> = (Sent \<lparr>status = 200, content_type = Some ''application/json; charset=utf-8'',
            content_length = None,
            resp_body = Some (JsonText (JObj
              [(''success'', JBool True),
               (''renderId'', JStr ''id-1''),
               (''key'', JStr ''id-1.mp4''),
               (''size'', JNum 10),
               (''uploadedToR2'', JBool True)]))\<rparr>,
      [SelectComposition (Some (JStr ''HelloWorld'')) None,
       RenderMedia ''composition'' None,
       S3Send \<lparr>endpoint = ''https://acct.r2.cloudflarestorage.com'',
               accessKeyId = JStr ''key-id'', secretAccessKey = JStr ''secret''\<rparr>
         None ''id-1.mp4'' ''0123456789'' ''video/mp4''])"
    unfolding calls answer client by (simp add: sample_defs res_json_def)
  finally have "?h = (Sent \<lparr>status = 200, content_type = Some ''application/json; charset=utf-8'',
            content_length = None,
            resp_body = Some (JsonText (JObj
              [(''success'', JBool True),
               (''renderId'', JStr ''id-1''),
               (''key'', JStr ''id-1.mp4''),
               (''size'', JNum 10),
               (''uploadedToR2'', JBool True)]))\<rparr>,
      [SelectComposition (Some (JStr ''HelloWorld'')) None,
       RenderMedia ''composition'' None,
       S3Send \<lparr>endpoint = ''https://acct.r2.cloudflarestorage.com'',
               accessKeyId = JStr ''key-id'', secretAccessKey = JStr ''secret''\<rparr>
         None ''id-1.mp4'' ''0123456789'' ''video/mp4''])" .
  with su show ?thesis by (rule conjI)
qed

end
